theory Spec2Isabelle
  imports Complex_Main
begin

section \<open>Python exceptions and tuple components\<close>

text \<open>
  The exceptions the modelled code can raise. \<open>ValueError\<close> and \<open>IndexError\<close> carry the
  message of the \<^verbatim>\<open>raise\<close> statement (the static text of an f-string), which tells the
  raise sites of one exception class apart. \<open>TypeError\<close>, \<open>AttributeError\<close>,
  \<open>KeyError\<close> and \<open>ZeroDivisionError\<close> are raised by the interpreter itself.
\<close>

datatype error =
    ValueError string
  | IndexError string
  | TypeError
  | AttributeError
  | KeyError
  | ZeroDivisionError

text \<open>
  A component of a coordinate or shape tuple: an instance of \<^verbatim>\<open>int\<close>, or a value of any
  other type, of which \<^verbatim>\<open>__is_valid_shape\<close> observes the truth value only.
\<close>

datatype pyval = PyInt int | PyOther bool

fun truthy :: "pyval \<Rightarrow> bool" where
  "truthy (PyInt n) = (n \<noteq> 0)"
| "truthy (PyOther b) = b"

fun isinstance_int :: "pyval \<Rightarrow> bool" where
  "isinstance_int (PyInt n) = True"
| "isinstance_int (PyOther b) = False"

text \<open>\<^verbatim>\<open>val < 1\<close>, evaluated only after \<^verbatim>\<open>isinstance(val, int)\<close> has held.\<close>

fun less_than_1 :: "pyval \<Rightarrow> bool" where
  "less_than_1 (PyInt n) = (n < 1)"
| "less_than_1 (PyOther b) = False"

fun int_of :: "pyval \<Rightarrow> int" where
  "int_of (PyInt n) = n"
| "int_of (PyOther b) = 0"

section \<open>Plate lattice: \<^verbatim>\<open>PlateCollection\<close> in plate.py\<close>

text \<open>
  \<^verbatim>\<open>all(shape) and not any([(not isinstance(val, int) or val < 1) for val in shape])\<close>.
  The empty tuple is a valid shape.
\<close>

definition is_valid_shape :: "pyval list \<Rightarrow> bool" where
  "is_valid_shape shape \<longleftrightarrow>
     list_all truthy shape \<and>
     \<not> list_ex (\<lambda>val. \<not> isinstance_int val \<or> less_than_1 val) shape"

text \<open>
  \<^verbatim>\<open>numpy.prod\<close> of a tuple of Python ints. When the tuple is not empty and every
  component fits a signed 64-bit integer, numpy builds an int64 array (its default
  integer on a 64-bit platform) and multiplies with wrap-around: the result is the
  product modulo \<open>2 ^ 64\<close>, read as a signed number. Otherwise numpy works in another
  dtype (float64 for the empty tuple, and uint64, float64 or object when a component
  is \<open>2 ^ 63\<close> or more); that result is not an int64 and its value is not modelled.
\<close>

datatype numpy_scalar = NpInt64 int | NpOther

definition wrap_int64 :: "int \<Rightarrow> int" where
  "wrap_int64 n = (n + 2 ^ 63) mod 2 ^ 64 - 2 ^ 63"

definition numpy_prod :: "int list \<Rightarrow> numpy_scalar" where
  "numpy_prod xs =
     (if xs \<noteq> [] \<and> list_all (\<lambda>x. - (2 ^ 63) \<le> x \<and> x < 2 ^ 63) xs
      then NpInt64 (wrap_int64 (prod_list xs))
      else NpOther)"

text \<open>
  \<^verbatim>\<open>coordinate_to_index(coordinate)\<close> takes the coordinate alone and returns
  \<^verbatim>\<open>prod(coordinate)\<close>. Only a valid tuple, all of whose components are ints, reaches the
  product, so \<open>int_of\<close> is never applied to a \<open>PyOther\<close>.
\<close>

definition coordinate_to_index :: "pyval list \<Rightarrow> error + numpy_scalar" where
  "coordinate_to_index coordinate =
     (if \<not> is_valid_shape coordinate
      then Inl (ValueError ''The supplied coordinates are not valid. All values must be non-negative integers'')
      else Inr (numpy_prod (map int_of coordinate)))"

text \<open>
  \<^verbatim>\<open>index_to_coordinate(index, shape)\<close>. The unpacking
  \<^verbatim>\<open>shape_row, shape_col = shape\<close> raises ValueError on a tuple whose length is not 2; a
  valid shape holds ints only, so the last case is exactly that one.
  Python's \<^verbatim>\<open>//\<close> and \<^verbatim>\<open>%\<close> round towards minus infinity, as \<open>div\<close> and \<open>mod\<close> on
  \<open>int\<close> do.
\<close>

definition index_to_coordinate :: "int \<Rightarrow> pyval list \<Rightarrow> error + int \<times> int" where
  "index_to_coordinate index shape =
     (if index < 1 \<or> \<not> is_valid_shape shape
      then Inl (ValueError ''The supplied index or shape is not valid. All values must be non-negative integers'')
      else (case shape of
              [PyInt shape_row, PyInt shape_col] \<Rightarrow>
                (let row = ((index - 1) div shape_col) + 1;
                     col = ((index - 1) mod shape_col) + 1
                 in if row > shape_row \<or> col > shape_col
                    then Inl (IndexError ''Index number is greater than the supplied shape size'')
                    else Inr (row, col))
            | _ \<Rightarrow> Inl (ValueError ''wrong number of values to unpack'')))"

section \<open>Colony: scanlag/colony.py\<close>

text \<open>
  The dataclass \<^verbatim>\<open>Colony.Timepoint\<close>. \<open>date_time\<close> is the instant of the image, which
  the file names give to the minute: an integer number of minutes. Floats are taken
  as real numbers.
\<close>

record timepoint =
  date_time :: int
  area :: int
  center :: "real \<times> real"
  diameter :: real
  perimeter :: real

text \<open>
  A \<^verbatim>\<open>Colony\<close> object: \<^verbatim>\<open>self.id\<close> and the private dictionary
  \<^verbatim>\<open>self.__timepoints\<close>, which maps a time point to its record. A Python dict keeps
  its keys unique and in insertion order: an association list to whose end a new key
  is added.
\<close>

record colony =
  colony_id :: int
  timepoints_dict :: "(int \<times> timepoint) list"

text \<open>Sequencing of calls that may raise: the first exception ends the evaluation.\<close>

definition and_then :: "error + 'a \<Rightarrow> ('a \<Rightarrow> error + 'b) \<Rightarrow> error + 'b" where
  "and_then m f = (case m of Inl e \<Rightarrow> Inl e | Inr x \<Rightarrow> f x)"

fun map_raise :: "('a \<Rightarrow> error + 'b) \<Rightarrow> 'a list \<Rightarrow> error + 'b list" where
  "map_raise f [] = Inr []"
| "map_raise f (x # xs) =
     and_then (f x) (\<lambda>y. and_then (map_raise f xs) (\<lambda>ys. Inr (y # ys)))"

text \<open>The property \<^verbatim>\<open>timepoints\<close>: the dictionary, or ValueError when it is empty.\<close>

definition timepoints :: "colony \<Rightarrow> error + (int \<times> timepoint) list" where
  "timepoints self =
     (if length (timepoints_dict self) > 0 then Inr (timepoints_dict self)
      else Inl (ValueError ''No time points are stored for this colony''))"

text \<open>
  \<^verbatim>\<open>append_timepoint\<close> mutates the object: the model returns the outcome of the call
  together with the object as the call leaves it.
\<close>

definition append_timepoint :: "colony \<Rightarrow> int \<Rightarrow> timepoint \<Rightarrow> (error + unit) \<times> colony" where
  "append_timepoint self time_point timepointdata =
     (if time_point \<notin> set (map fst (timepoints_dict self))
      then (Inr (), self\<lparr>timepoints_dict := timepoints_dict self @ [(time_point, timepointdata)]\<rparr>)
      else (Inl (ValueError ''This time point already exists''), self))"

subsection \<open>The builtins as the methods call them\<close>

text \<open>
  \<^verbatim>\<open>list(d, key=f)\<close> and \<^verbatim>\<open>sum(d, key=f)\<close>: neither builtin takes a keyword argument,
  so each call raises TypeError once its arguments have been evaluated.
\<close>

definition list_with_key :: "(int \<times> timepoint) list \<Rightarrow> (timepoint \<Rightarrow> 'a) \<Rightarrow> error + 'a list" where
  "list_with_key d key = Inl TypeError"

definition sum_with_key :: "(int \<times> timepoint) list \<Rightarrow> (timepoint \<Rightarrow> 'a) \<Rightarrow> error + 'a" where
  "sum_with_key d key = Inl TypeError"

text \<open>
  \<^verbatim>\<open>min(d, key=f)\<close> iterates over the keys of the dict, applies \<open>f\<close> to every one of
  them, the first included, and returns the first key whose value is least.
\<close>

fun min_rest :: "('a \<Rightarrow> error + 'k::linorder) \<Rightarrow> 'a \<Rightarrow> 'k \<Rightarrow> 'a list \<Rightarrow> error + 'a" where
  "min_rest key best best_key [] = Inr best"
| "min_rest key best best_key (x # xs) =
     and_then (key x) (\<lambda>k.
       if k < best_key then min_rest key x k xs else min_rest key best best_key xs)"

fun min_with_key :: "('a \<Rightarrow> error + 'k::linorder) \<Rightarrow> 'a list \<Rightarrow> error + 'a" where
  "min_with_key key [] = Inl (ValueError ''min() arg is an empty sequence'')"
| "min_with_key key (x # xs) = and_then (key x) (\<lambda>k. min_rest key x k xs)"

text \<open>
  \<^verbatim>\<open>attrgetter('date_time')\<close> applied to a key of the dictionary: the keys are the
  time points themselves, which have no attribute \<^verbatim>\<open>date_time\<close>.
\<close>

definition attrgetter_date_time_of_key :: "int \<Rightarrow> error + int" where
  "attrgetter_date_time_of_key time_point = Inl AttributeError"

text \<open>Indexing a list at a non-negative index, true division and \<^verbatim>\<open>math.log\<close>.\<close>

definition getitem :: "'a list \<Rightarrow> nat \<Rightarrow> error + 'a" where
  "getitem xs i = (if i < length xs then Inr (xs ! i) else Inl (IndexError ''list index out of range''))"

definition true_div :: "real \<Rightarrow> real \<Rightarrow> error + real" where
  "true_div a b = (if b = 0 then Inl ZeroDivisionError else Inr (a / b))"

definition math_log :: "real \<Rightarrow> error + real" where
  "math_log x = (if x \<le> 0 then Inl (ValueError ''math domain error'') else Inr (ln x))"

subsection \<open>The metrics\<close>


text \<open>
  \<^verbatim>\<open>__local_doubling_time\<close>: the four reads, then
  \<^verbatim>\<open>(x2 - x1) * log(2) / log(y2 / y1)\<close>, whose right operand is evaluated before the
  outer division.
\<close>

definition local_doubling_time :: "nat \<Rightarrow> real list \<Rightarrow> real list \<Rightarrow> nat \<Rightarrow> error + real" where
  "local_doubling_time index x_pts y_pts window =
     and_then (getitem x_pts index) (\<lambda>x1.
     and_then (getitem y_pts index) (\<lambda>y1.
     and_then (getitem x_pts (index + window)) (\<lambda>x2.
     and_then (getitem y_pts (index + window)) (\<lambda>y2.
     and_then (true_div y2 y1) (\<lambda>ratio.
     and_then (math_log ratio) (\<lambda>log_ratio.
     true_div ((x2 - x1) * ln 2) log_ratio))))))"

text \<open>
  \<^verbatim>\<open>doubling_time\<close>: both point lists are built with \<^verbatim>\<open>list(self.timepoints, key=...)\<close>;
  \<^verbatim>\<open>range(len(x_pts) - window)\<close> is empty when the difference is not positive.
\<close>

definition doubling_time :: "colony \<Rightarrow> error + real list" where
  "doubling_time self =
     and_then (timepoints self) (\<lambda>d1.
     and_then (list_with_key d1 (\<lambda>t. real_of_int (date_time t))) (\<lambda>x_pts.
     and_then (timepoints self) (\<lambda>d2.
     and_then (list_with_key d2 (\<lambda>t. real_of_int (area t))) (\<lambda>y_pts.
     (let window = 10
      in map_raise (\<lambda>i. local_doubling_time i x_pts y_pts window)
           [0 ..< length x_pts - window])))))"

text \<open>
  \<^verbatim>\<open>center\<close>: \<^verbatim>\<open>sum(self.timepoints, key=attrgetter('center')) / len(self.timepoints)\<close>.
  The left operand is evaluated first and always raises, so the division is not
  reached.
\<close>

definition center_colony :: "colony \<Rightarrow> error + real \<times> real" where
  "center_colony self = and_then (timepoints self) (\<lambda>d. sum_with_key d center)"

text \<open>\<^verbatim>\<open>get_areas\<close>: \<^verbatim>\<open>list(self.timepoints, key=attrgetter('area'))\<close>.\<close>

definition get_areas :: "colony \<Rightarrow> error + int list" where
  "get_areas self = and_then (timepoints self) (\<lambda>d. list_with_key d area)"

text \<open>\<^verbatim>\<open>time_of_appearance\<close>: \<^verbatim>\<open>min(self.timepoints, key=attrgetter('date_time'))\<close>.\<close>

definition time_of_appearance :: "colony \<Rightarrow> error + int" where
  "time_of_appearance self =
     and_then (timepoints self) (\<lambda>d. min_with_key attrgetter_date_time_of_key (map fst d))"

text \<open>
  Modelled from the spec: \<^verbatim>\<open>growth_rate\<close>, which main() reads from a colony but the
  Colony class of scanlag/colony.py does not define. The spec leaves its formula open
  (an aggregate scalar summarising the area trajectory, "exact normalization is an
  implementation choice"): the parameter \<open>rate\<close> computes it from the stored records.
  The spec's rule that a derived-metric query on a colony with zero Timepoint Records
  fails is the read through the property \<^verbatim>\<open>timepoints\<close>.
\<close>

definition growth_rate :: "((int \<times> timepoint) list \<Rightarrow> real) \<Rightarrow> colony \<Rightarrow> error + real" where
  "growth_rate rate self = and_then (timepoints self) (\<lambda>d. Inr (rate d))"

section \<open>The colony builder: \<^verbatim>\<open>timepoints_from_image\<close> in scanlag/colony.py\<close>











section \<open>The colony filters of main(): colonyscanalyser.py\<close>

text \<open>
  \<^verbatim>\<open>filter(f, items)\<close> where \<open>f\<close> may raise: the items are visited in order and the
  first exception ends the construction of the dict.
\<close>

fun filter_raise :: "('a \<Rightarrow> error + bool) \<Rightarrow> 'a list \<Rightarrow> error + 'a list" where
  "filter_raise f [] = Inr []"
| "filter_raise f (x # xs) =
     and_then (f x) (\<lambda>b.
     and_then (filter_raise f xs) (\<lambda>ys. Inr (if b then x # ys else ys)))"

text \<open>
  The three filters that main() applies to \<^verbatim>\<open>plate_colonies[plate_id]\<close>, a dict from
  label to colony (its items, in order):
  \<^verbatim>\<open>len(elem[1].timepoints) > len(time_points) * 0.2\<close>, then
  \<^verbatim>\<open>elem[1].growth_rate > 1\<close>, then \<^verbatim>\<open>elem[1].timepoint_first.area < 50\<close>.
  The attributes \<^verbatim>\<open>growth_rate\<close> and \<^verbatim>\<open>timepoint_first\<close> are not defined by the Colony
  class of scanlag/colony.py: their values are the parameters \<open>growth_rate_of\<close> and
  \<open>first_area_of\<close>. The product with 0.2 is taken in the reals; the float product
  is the exact fifth when the frame count is a multiple of 5 and is not an integer
  otherwise, so the comparison with an integer length is the same.
\<close>

definition main_filter_colonies ::
  "(colony \<Rightarrow> real) \<Rightarrow> (colony \<Rightarrow> int) \<Rightarrow> nat \<Rightarrow> (int \<times> colony) list \<Rightarrow> error + (int \<times> colony) list"
where
  "main_filter_colonies growth_rate_of first_area_of len_time_points plate_colonies =
     and_then
       (filter_raise
          (\<lambda>elem. and_then (timepoints (snd elem))
             (\<lambda>d. Inr (real (length d) > real len_time_points * 0.2)))
          plate_colonies)
       (\<lambda>kept1.
          (let kept2 = filter (\<lambda>elem. growth_rate_of (snd elem) > 1) kept1;
               kept3 = filter (\<lambda>elem. first_area_of (snd elem) < 50) kept2
           in Inr kept3))"

section \<open>Properties of the plate lattice functions\<close>

lemma is_valid_shape_iff:
  "is_valid_shape shape \<longleftrightarrow> (\<forall>v \<in> set shape. \<exists>n. 1 \<le> n \<and> v = PyInt n)"
proof -
  have "(truthy v \<and> isinstance_int v \<and> \<not> less_than_1 v) = (\<exists>n. 1 \<le> n \<and> v = PyInt n)" for v
    by (cases v) auto
  then show ?thesis
    unfolding is_valid_shape_def list_all_iff list_ex_iff by blast
qed

lemma is_valid_shape_pair [simp]:
  "is_valid_shape [PyInt r, PyInt c] \<longleftrightarrow> 1 \<le> r \<and> 1 \<le> c"
  by (auto simp: is_valid_shape_iff)

lemma wrap_int64_id:
  "- (2 ^ 63) \<le> n \<Longrightarrow> n < 2 ^ 63 \<Longrightarrow> wrap_int64 n = n"
  by (simp add: wrap_int64_def)

lemma coordinate_to_index_pair:
  "1 \<le> r \<Longrightarrow> 1 \<le> c \<Longrightarrow> r < 2 ^ 63 \<Longrightarrow> c < 2 ^ 63 \<Longrightarrow>
   coordinate_to_index [PyInt r, PyInt c] = Inr (NpInt64 (wrap_int64 (r * c)))"
  by (simp add: coordinate_to_index_def numpy_prod_def)

text \<open>
  C1. Converting a coordinate to an index and back does not return the coordinate:
  \<^verbatim>\<open>coordinate_to_index\<close> is the product of the components, so coordinate (2, 1) gets
  index 2, which \<^verbatim>\<open>index_to_coordinate\<close> reads in the shape (3, 2) as (1, 2).
\<close>

theorem roundtrip_2_1_in_3_2:
  "coordinate_to_index [PyInt 2, PyInt 1] = Inr (NpInt64 2) \<and>
   index_to_coordinate 2 [PyInt 3, PyInt 2] = Inr (1, 2)"
  by (simp add: coordinate_to_index_def numpy_prod_def wrap_int64_def index_to_coordinate_def)

text \<open>
  C2. The index of coordinate (2, 1) is the product 2 * 1 = 2; the row-major index in
  a lattice of 2 columns is (2 - 1) * 2 + 1 = 3.
\<close>

theorem coordinate_to_index_2_1:
  "coordinate_to_index [PyInt 2, PyInt 1] = Inr (NpInt64 2) \<and> (2 - 1) * 2 + 1 \<noteq> (2::int)"
  by (simp add: coordinate_to_index_def numpy_prod_def wrap_int64_def)

text \<open>
  C9. \<^verbatim>\<open>coordinate_to_index\<close> has no shape argument, so a coordinate is never compared
  with a shape: the coordinate (5, 5), which exceeds the shape (3, 2) in both components,
  is accepted and gets the index 25.
\<close>

theorem coordinate_beyond_shape_accepted:
  "(5::int) > 3 \<and> (5::int) > 2 \<and>
   coordinate_to_index [PyInt 5, PyInt 5] = Inr (NpInt64 25)"
  by (simp add: coordinate_to_index_def numpy_prod_def wrap_int64_def)

text \<open>
  The checks that the two functions do make. \<^verbatim>\<open>coordinate_to_index\<close> raises
  ValueError whenever a component of its coordinate is not an integer that is at least
  1. \<^verbatim>\<open>index_to_coordinate\<close> raises ValueError whenever the index is below 1 or a
  component of the shape is not an integer that is at least 1, and on a shape of two
  positive integers raises IndexError whenever the row ((index - 1) // shape_col) + 1
  exceeds shape_row.
\<close>

lemma coordinate_to_index_invalid:
  assumes "\<exists>v \<in> set coordinate. \<not> (\<exists>n. 1 \<le> n \<and> v = PyInt n)"
  shows "coordinate_to_index coordinate =
           Inl (ValueError ''The supplied coordinates are not valid. All values must be non-negative integers'')"
proof -
  from assms have "\<not> is_valid_shape coordinate"
    by (simp add: is_valid_shape_iff)
  then show ?thesis
    by (simp add: coordinate_to_index_def)
qed

lemma index_to_coordinate_invalid:
  assumes "index < 1 \<or> (\<exists>v \<in> set shape. \<not> (\<exists>n. 1 \<le> n \<and> v = PyInt n))"
  shows "index_to_coordinate index shape =
           Inl (ValueError ''The supplied index or shape is not valid. All values must be non-negative integers'')"
proof -
  from assms have "index < 1 \<or> \<not> is_valid_shape shape"
    by (simp add: is_valid_shape_iff)
  then show ?thesis
    by (simp add: index_to_coordinate_def)
qed

lemma index_to_coordinate_row_beyond_shape:
  assumes "1 \<le> shape_row" and "1 \<le> shape_col"
      and "((index - 1) div shape_col) + 1 > shape_row"
  shows "index_to_coordinate index [PyInt shape_row, PyInt shape_col] =
           Inl (IndexError ''Index number is greater than the supplied shape size'')"
proof -
  have "1 \<le> index"
  proof (rule ccontr)
    assume "\<not> 1 \<le> index"
    then have "index - 1 < 0" by simp
    with assms(2) have "(index - 1) div shape_col < 0"
      by (simp add: div_neg_pos_less0)
    with assms show False by linarith
  qed
  with assms show ?thesis
    by (simp add: index_to_coordinate_def Let_def)
qed

section \<open>Properties of the colony\<close>

lemma timepoints_empty:
  "timepoints_dict self = [] \<Longrightarrow>
   timepoints self = Inl (ValueError ''No time points are stored for this colony'')"
  by (simp add: timepoints_def)

lemma timepoints_nonempty:
  "timepoints_dict self \<noteq> [] \<Longrightarrow> timepoints self = Inr (timepoints_dict self)"
  by (simp add: timepoints_def)

lemma doubling_time_nonempty:
  "timepoints_dict self \<noteq> [] \<Longrightarrow> doubling_time self = Inl TypeError"
  by (simp add: doubling_time_def timepoints_nonempty and_then_def list_with_key_def)

lemma get_areas_nonempty:
  "timepoints_dict self \<noteq> [] \<Longrightarrow> get_areas self = Inl TypeError"
  by (simp add: get_areas_def timepoints_nonempty and_then_def list_with_key_def)

text \<open>
  C4. On a colony of 11 records (one more than the window of 10) \<^verbatim>\<open>doubling_time\<close>
  returns no value at all: \<^verbatim>\<open>list(self.timepoints, key=...)\<close> raises TypeError before
  any window is read.
\<close>

theorem doubling_time_eleven_records:
  "doubling_time \<lparr>colony_id = 1, timepoints_dict =
      map (\<lambda>n. (int n, \<lparr>date_time = int n, area = 2 ^ n, center = (0, 0),
                         diameter = 1, perimeter = 1\<rparr>)) [0 ..< 11]\<rparr>
   = Inl TypeError"
  by (rule doubling_time_nonempty) simp




text \<open>
  C6. Appending at a time point that the colony already stores raises the ValueError
  "This time point already exists" and leaves the colony, with every stored record,
  as it was.
\<close>

theorem append_timepoint_duplicate:
  assumes "time_point \<in> set (map fst (timepoints_dict self))"
  shows "append_timepoint self time_point timepointdata =
           (Inl (ValueError ''This time point already exists''), self)"
  using assms by (simp add: append_timepoint_def)

theorem append_timepoint_duplicate_witness:
  "append_timepoint
     \<lparr>colony_id = 4, timepoints_dict =
        [(30, \<lparr>date_time = 30, area = 12, center = (1, 2), diameter = 4, perimeter = 12\<rparr>),
         (60, \<lparr>date_time = 60, area = 20, center = (1, 2), diameter = 5, perimeter = 16\<rparr>)]\<rparr>
     60 \<lparr>date_time = 60, area = 99, center = (0, 0), diameter = 11, perimeter = 35\<rparr>
   = (Inl (ValueError ''This time point already exists''),
      \<lparr>colony_id = 4, timepoints_dict =
        [(30, \<lparr>date_time = 30, area = 12, center = (1, 2), diameter = 4, perimeter = 12\<rparr>),
         (60, \<lparr>date_time = 60, area = 20, center = (1, 2), diameter = 5, perimeter = 16\<rparr>)]\<rparr>)"
  by (rule append_timepoint_duplicate) simp

text \<open>
  C7. On a colony that stores one record, of area 10, \<^verbatim>\<open>get_areas\<close> returns no
  sequence: \<^verbatim>\<open>list(self.timepoints, key=attrgetter('area'))\<close> raises TypeError.
\<close>

theorem get_areas_one_record:
  "get_areas \<lparr>colony_id = 1, timepoints_dict =
      [(0, \<lparr>date_time = 0, area = 10, center = (0, 0), diameter = 1, perimeter = 1\<rparr>)]\<rparr>
   = Inl TypeError"
  by (rule get_areas_nonempty) simp

text \<open>
  C8. On a colony that stores no record, each of \<^verbatim>\<open>time_of_appearance\<close>, \<^verbatim>\<open>center\<close>,
  \<^verbatim>\<open>growth_rate\<close>, \<^verbatim>\<open>doubling_time\<close> and \<^verbatim>\<open>get_areas\<close> raises the ValueError
  "No time points are stored for this colony".
\<close>

theorem empty_colony_queries_fail:
  assumes "timepoints_dict self = []"
  shows "time_of_appearance self = Inl (ValueError ''No time points are stored for this colony'') \<and>
         center_colony self = Inl (ValueError ''No time points are stored for this colony'') \<and>
         growth_rate rate self = Inl (ValueError ''No time points are stored for this colony'') \<and>
         doubling_time self = Inl (ValueError ''No time points are stored for this colony'') \<and>
         get_areas self = Inl (ValueError ''No time points are stored for this colony'')"
  using timepoints_empty [OF assms]
  by (simp add: time_of_appearance_def center_colony_def growth_rate_def doubling_time_def
      get_areas_def and_then_def)

theorem empty_colony_queries_fail_witness:
  "time_of_appearance \<lparr>colony_id = 1, timepoints_dict = []\<rparr>
     = Inl (ValueError ''No time points are stored for this colony'') \<and>
   center_colony \<lparr>colony_id = 1, timepoints_dict = []\<rparr>
     = Inl (ValueError ''No time points are stored for this colony'') \<and>
   growth_rate (\<lambda>d. 2) \<lparr>colony_id = 1, timepoints_dict = []\<rparr>
     = Inl (ValueError ''No time points are stored for this colony'') \<and>
   doubling_time \<lparr>colony_id = 1, timepoints_dict = []\<rparr>
     = Inl (ValueError ''No time points are stored for this colony'') \<and>
   get_areas \<lparr>colony_id = 1, timepoints_dict = []\<rparr>
     = Inl (ValueError ''No time points are stored for this colony'')"
  using empty_colony_queries_fail [of "\<lparr>colony_id = 1, timepoints_dict = []\<rparr>" "\<lambda>d. 2"]
  by simp

section \<open>Properties of the colony filters\<close>

lemma filter_raise_total:
  "\<forall>x \<in> set xs. f x = Inr (q x) \<Longrightarrow> filter_raise f xs = Inr (filter q xs)"
  by (induction xs) (simp_all add: and_then_def)

text \<open>
  C3. On candidate colonies that each store at least one record, the filters keep
  exactly the colonies with more records than a fifth of the frames, a growth rate
  above 1 and a first area below 50, in their order. The witness is the plate of the
  scenario: over 100 frames, A (5 records, growth rate 2, first area 10) and B
  (30 records, growth rate 1/2) are dropped and C (30 records, growth rate 3, first
  area 20) is kept.
\<close>

theorem filter_pipeline_retains:
  assumes "\<forall>elem \<in> set plate_colonies. timepoints_dict (snd elem) \<noteq> []"
  shows "main_filter_colonies growth_rate_of first_area_of len_time_points plate_colonies =
           Inr (filter
                  (\<lambda>elem. real (length (timepoints_dict (snd elem))) > real len_time_points * 0.2
                         \<and> growth_rate_of (snd elem) > 1
                         \<and> first_area_of (snd elem) < 50)
                  plate_colonies)"
proof -
  have "filter_raise
          (\<lambda>elem. and_then (timepoints (snd elem))
             (\<lambda>d. Inr (real (length d) > real len_time_points * 0.2)))
          plate_colonies
        = Inr (filter
                 (\<lambda>elem. real (length (timepoints_dict (snd elem))) > real len_time_points * 0.2)
                 plate_colonies)"
    using assms by (intro filter_raise_total) (simp add: timepoints_nonempty and_then_def)
  then show ?thesis
    by (simp add: main_filter_colonies_def and_then_def conj_commute conj_left_commute)
qed

theorem filter_pipeline_retains_witness:
  "main_filter_colonies
     (\<lambda>c. if colony_id c = 1 then 2 else if colony_id c = 2 then 1 / 2 else 3)
     (\<lambda>c. if colony_id c = 1 then 10 else 20)
     100
     [(1, \<lparr>colony_id = 1, timepoints_dict =
             map (\<lambda>n. (int n, \<lparr>date_time = int n, area = 10, center = (0, 0),
                                diameter = 4, perimeter = 11\<rparr>)) [0 ..< 5]\<rparr>),
      (2, \<lparr>colony_id = 2, timepoints_dict =
             map (\<lambda>n. (int n, \<lparr>date_time = int n, area = 20, center = (5, 5),
                                diameter = 5, perimeter = 16\<rparr>)) [0 ..< 30]\<rparr>),
      (3, \<lparr>colony_id = 3, timepoints_dict =
             map (\<lambda>n. (int n, \<lparr>date_time = int n, area = 20, center = (9, 9),
                                diameter = 5, perimeter = 16\<rparr>)) [0 ..< 30]\<rparr>)]
   = Inr [(3, \<lparr>colony_id = 3, timepoints_dict =
             map (\<lambda>n. (int n, \<lparr>date_time = int n, area = 20, center = (9, 9),
                                diameter = 5, perimeter = 16\<rparr>)) [0 ..< 30]\<rparr>)]"
  using filter_pipeline_retains
    [of "[(1, \<lparr>colony_id = 1, timepoints_dict =
             map (\<lambda>n. (int n, \<lparr>date_time = int n, area = 10, center = (0, 0),
                                diameter = 4, perimeter = 11\<rparr>)) [0 ..< 5]\<rparr>),
      (2, \<lparr>colony_id = 2, timepoints_dict =
             map (\<lambda>n. (int n, \<lparr>date_time = int n, area = 20, center = (5, 5),
                                diameter = 5, perimeter = 16\<rparr>)) [0 ..< 30]\<rparr>),
      (3, \<lparr>colony_id = 3, timepoints_dict =
             map (\<lambda>n. (int n, \<lparr>date_time = int n, area = 20, center = (9, 9),
                                diameter = 5, perimeter = 16\<rparr>)) [0 ..< 30]\<rparr>)]"
        "\<lambda>c. if colony_id c = 1 then 2 else if colony_id c = 2 then 1 / 2 else 3"
        "\<lambda>c. if colony_id c = 1 then 10 else 20"
        100]
  by simp

section \<open>Properties of the colony builder\<close>




















end
